theory Spec2Isabelle
  imports Complex_Main
begin

section \<open>Artist resolution: a model of \<open>src/artist_manager.py\<close>\<close>

text \<open>
  The class \<open>ArtistManager\<close> keeps three SQLite tables and resolves an artist name
  through \<open>process_artist\<close>: a lookup in the table \<open>artists\<close>, and on a miss a
  gathering step (\<open>gather_artist_info\<close>) followed by \<open>save_artist_to_db\<close>.
  The model passes the database explicitly, returns Python exceptions as values
  (\<open>Inl\<close>), and keeps Python dictionaries as maps from key to value.

  The methods are coroutines that await one another and nothing else, so a call is
  modelled as a plain call. What the methods print is not modelled. Opening the database
  file (\<open>sqlite3.connect\<close>, outside every \<open>try\<close>) is taken to succeed, as it did in
  the constructor.
\<close>

subsection \<open>Python values, dictionaries, exceptions\<close>

text \<open>
  The values that occur in the dictionaries of the module: strings, booleans, integers,
  floats, lists of strings (\<open>genres\<close>, \<open>sources\<close>) and lists of pairs of strings
  (\<open>venues\<close>). The only floats are the literals \<open>0.0\<close>, \<open>0.5\<close> and \<open>0.8\<close>,
  which are stored and read back and never computed with.
\<close>

datatype pyval =
    PStr string
  | PBool bool
  | PInt int
  | PFloat real
  | PStrs "string list"
  | PPairs "(string \<times> string) list"

type_synonym dict = "string \<rightharpoonup> pyval"

datatype exn =
    KeyError string
  | TypeError
  | IntegrityError
  | OperationalError

text \<open>Truth value of a Python value, as \<open>if v:\<close> tests it.\<close>

fun truthy :: "pyval \<Rightarrow> bool" where
  "truthy (PStr s) = (s \<noteq> [])"
| "truthy (PBool b) = b"
| "truthy (PInt i) = (i \<noteq> 0)"
| "truthy (PFloat x) = (x \<noteq> 0)"
| "truthy (PStrs xs) = (xs \<noteq> [])"
| "truthy (PPairs xs) = (xs \<noteq> [])"

text \<open>\<open>a or b\<close> on Python values.\<close>

definition py_or :: "pyval \<Rightarrow> pyval \<Rightarrow> pyval" where
  "py_or a b = (if truthy a then a else b)"

text \<open>
  The parameter \<open>venue: str = None\<close> is a \<open>string option\<close>; \<open>if venue:\<close> is false for
  \<open>None\<close> and for the empty string.
\<close>

fun venue_given :: "string option \<Rightarrow> bool" where
  "venue_given None = False"
| "venue_given (Some v) = (v \<noteq> [])"

text \<open>\<open>d[k]\<close>: raises \<open>KeyError\<close> on a missing key.\<close>

definition getitem :: "dict \<Rightarrow> string \<Rightarrow> exn + pyval" where
  "getitem d k = (case d k of None \<Rightarrow> Inl (KeyError k) | Some v \<Rightarrow> Inr v)"

text \<open>
  \<open>d[k]\<close> where the code goes on to use the value as a string, a boolean, a float or a
  list of strings. A value of another type is reported as \<open>TypeError\<close>; the
  dictionaries built by this module never hold one.
\<close>

definition getitem_str :: "dict \<Rightarrow> string \<Rightarrow> exn + string" where
  "getitem_str d k =
     (case d k of None \<Rightarrow> Inl (KeyError k) | Some (PStr s) \<Rightarrow> Inr s | Some _ \<Rightarrow> Inl TypeError)"

definition getitem_bool :: "dict \<Rightarrow> string \<Rightarrow> exn + bool" where
  "getitem_bool d k =
     (case d k of None \<Rightarrow> Inl (KeyError k) | Some (PBool b) \<Rightarrow> Inr b | Some _ \<Rightarrow> Inl TypeError)"

definition getitem_float :: "dict \<Rightarrow> string \<Rightarrow> exn + real" where
  "getitem_float d k =
     (case d k of None \<Rightarrow> Inl (KeyError k) | Some (PFloat x) \<Rightarrow> Inr x | Some _ \<Rightarrow> Inl TypeError)"

definition getitem_strs :: "dict \<Rightarrow> string \<Rightarrow> exn + string list" where
  "getitem_strs d k =
     (case d k of None \<Rightarrow> Inl (KeyError k) | Some (PStrs xs) \<Rightarrow> Inr xs | Some _ \<Rightarrow> Inl TypeError)"

text \<open>\<open>','.join(xs)\<close>.\<close>

fun join_comma :: "string list \<Rightarrow> string" where
  "join_comma [] = []"
| "join_comma [x] = x"
| "join_comma (x # y # ys) = x @ '','' @ join_comma (y # ys)"

text \<open>
  \<open>str.lower()\<close> on the ASCII letters. Strings are lists of 8-bit characters here, so
  the model covers ASCII names; Python also maps the upper-case letters of other scripts.
\<close>

definition lower_char :: "char \<Rightarrow> char" where
  "lower_char c =
     (let n = (of_char c :: nat) in if 65 \<le> n \<and> n \<le> 90 then char_of (n + 32) else c)"

definition lower :: "string \<Rightarrow> string" where
  "lower s = map lower_char s"

subsection \<open>The database\<close>

text \<open>
  One row type per table of \<open>setup_database\<close>. A table is the list of its rows in
  insertion order. \<open>datetime.now()\<close> is stored by \<open>sqlite3\<close> as text and read back as
  text, so a timestamp is a string; the boolean column holds 0 or 1 when read back.
\<close>

datatype artist_row =
  ArtistRow (a_id: int) (a_name: string) (a_is_local: bool)
            (a_verification_source: string) (a_last_updated: string)

datatype genre_row =
  GenreRow (g_artist_id: int) (g_genre: string) (g_confidence: real) (g_source: string)

datatype venue_row =
  VenueRow (v_artist_id: int) (v_venue: string) (v_last_played: string)

record db =
  artists :: "artist_row list"
  artist_genres :: "genre_row list"
  artist_venues :: "venue_row list"

definition empty_db :: db where
  "empty_db = \<lparr>artists = [], artist_genres = [], artist_venues = []\<rparr>"

text \<open>
  Every \<open>c.execute\<close> and \<open>conn.commit()\<close> can raise for a reason outside the
  program (disk, lock, connection). The three methods that touch the database each wrap
  their statements in \<open>try\<close>/\<open>except Exception\<close>, and these are the branches the
  fields below select: the lookup raises, the venue insert raises, or statement number
  \<open>k\<close> of the save transaction raises (0 is the artist insert, then one per genre,
  then the commit). \<open>healthy\<close> is the store on which nothing of the kind happens.
\<close>

record faults =
  find_fails :: bool
  visit_fails :: bool
  save_fails_at :: "nat option"

definition healthy :: faults where
  "healthy = \<lparr>find_fails = False, visit_fails = False, save_fails_at = None\<rparr>"

subsection \<open>The catalog client\<close>

text \<open>
  \<open>self.spotify\<close> is either \<open>None\<close> (the constructor caught the failure to build the
  client) or a client whose \<open>search\<close> raises or returns a list of artists.
\<close>

datatype spotify_artist =
  SpotifyArtist (sp_name: string) (sp_genres: "string list") (sp_popularity: int) (sp_id: string)

datatype search_outcome = SearchRaises | SearchItems "spotify_artist list"

type_synonym spotify_client = "string \<Rightarrow> search_outcome"

text \<open>\<open>get_spotify_info\<close>, lines 108-125.\<close>

definition get_spotify_info :: "spotify_client option \<Rightarrow> string \<Rightarrow> dict option" where
  "get_spotify_info spotify artist_name =
     (case spotify of
        None \<Rightarrow> None
      | Some client \<Rightarrow>
          (case client artist_name of
             SearchRaises \<Rightarrow> None
           | SearchItems [] \<Rightarrow> None
           | SearchItems (artist # _) \<Rightarrow>
               Some [''genres'' \<mapsto> PStrs (sp_genres artist),
                     ''popularity'' \<mapsto> PInt (sp_popularity artist),
                     ''spotify_id'' \<mapsto> PStr (sp_id artist),
                     ''confidence'' \<mapsto>
                        PFloat (if lower (sp_name artist) = lower artist_name
                                then 0.8 else 0.5)]))"

text \<open>
  \<open>check_social_media\<close> (lines 127-148) and \<open>check_venue_history\<close> (lines 150-167):
  both build a dictionary with empty \<open>sources\<close>, do nothing in their \<open>try\<close> blocks,
  and return \<open>info if info['sources'] else None\<close>.
\<close>

definition check_social_media :: "string \<Rightarrow> dict option" where
  "check_social_media artist_name =
     (let info = [''genres'' \<mapsto> PStrs [], ''sources'' \<mapsto> PStrs [], ''is_local'' \<mapsto> PBool False]
      in case getitem info ''sources'' of
           Inr v \<Rightarrow> (if truthy v then Some info else None)
         | Inl _ \<Rightarrow> None)"

definition check_venue_history :: "string \<Rightarrow> dict option" where
  "check_venue_history artist_name =
     (let info = [''genres'' \<mapsto> PStrs [], ''sources'' \<mapsto> PStrs [], ''is_local'' \<mapsto> PBool False]
      in case getitem info ''sources'' of
           Inr v \<Rightarrow> (if truthy v then Some info else None)
         | Inl _ \<Rightarrow> None)"

subsection \<open>Reading and writing the store\<close>

text \<open>
  \<open>get_artist_from_db\<close>, lines 197-231. \<open>WHERE name = ?\<close> compares with SQLite's
  default binary collation, that is string equality; \<open>fetchone\<close> takes the first
  matching row. An exception in the \<open>try\<close> block is printed and the method returns
  \<open>None\<close>.
\<close>

definition select_genres :: "db \<Rightarrow> int \<Rightarrow> string list" where
  \<comment> \<open>\<open>SELECT genre FROM artist_genres WHERE artist_id = ?\<close>\<close>
  "select_genres d artist_id =
     map g_genre (filter (\<lambda>r. g_artist_id r = artist_id) (artist_genres d))"

definition select_venues :: "db \<Rightarrow> int \<Rightarrow> (string \<times> string) list" where
  \<comment> \<open>\<open>SELECT venue, last_played FROM artist_venues WHERE artist_id = ?\<close>\<close>
  "select_venues d artist_id =
     map (\<lambda>r. (v_venue r, v_last_played r))
       (filter (\<lambda>r. v_artist_id r = artist_id) (artist_venues d))"

definition get_artist_from_db :: "bool \<Rightarrow> string \<Rightarrow> db \<Rightarrow> dict option" where
  "get_artist_from_db fails artist_name d =
     (if fails then None
      else
        (case find (\<lambda>r. a_name r = artist_name) (artists d) of
           None \<Rightarrow> None
         | Some artist \<Rightarrow>
             Some [''id'' \<mapsto> PInt (a_id artist),
                   ''name'' \<mapsto> PStr (a_name artist),
                   ''is_local'' \<mapsto> PInt (if a_is_local artist then 1 else 0),
                   ''verification_source'' \<mapsto> PStr (a_verification_source artist),
                   ''last_updated'' \<mapsto> PStr (a_last_updated artist),
                   ''genres'' \<mapsto> PStrs (select_genres d (a_id artist)),
                   ''venues'' \<mapsto> PPairs (select_venues d (a_id artist))]))"

text \<open>
  \<open>update_venue_info\<close>, lines 233-246: one row appended and committed, or an exception
  printed and the insert rolled back. The table has no uniqueness constraint and SQLite
  does not check the foreign key unless asked to, which the module never does.
\<close>

definition update_venue_info :: "bool \<Rightarrow> int \<Rightarrow> string \<Rightarrow> string \<Rightarrow> db \<Rightarrow> db" where
  "update_venue_info fails artist_id venue now d =
     (if fails then d
      else d\<lparr>artist_venues := artist_venues d @ [VenueRow artist_id venue now]\<rparr>)"

text \<open>
  The row id SQLite gives a new row of a table with an \<open>INTEGER PRIMARY KEY\<close>: one
  more than the largest id in the table, 1 in an empty table.
\<close>

definition next_rowid :: "artist_row list \<Rightarrow> int" where
  "next_rowid rows = (if rows = [] then 1 else Max (set (map a_id rows)) + 1)"

text \<open>
  The first statement of \<open>save_artist_to_db\<close>: the insert into \<open>artists\<close>, which the
  \<open>UNIQUE\<close> constraint on \<open>name\<close> refuses when the name is already there, and
  \<open>c.lastrowid\<close>.
\<close>

definition insert_artist ::
  "nat option \<Rightarrow> string \<Rightarrow> bool \<Rightarrow> string \<Rightarrow> string \<Rightarrow> db \<Rightarrow> exn + (int \<times> db)" where
  "insert_artist fault name is_local verification_source now d =
     (if fault = Some 0 then Inl OperationalError
      else if name \<in> set (map a_name (artists d)) then Inl IntegrityError
      else
        (let artist_id = next_rowid (artists d)
         in Inr (artist_id,
                 d\<lparr>artists := artists d @
                      [ArtistRow artist_id name is_local verification_source now]\<rparr>)))"

text \<open>
  The loop \<open>for genre in set(artist_info['genres'])\<close>, lines 184-188, over the
  elements of the set in the order \<open>gs\<close>; \<open>k\<close> numbers the statement. Each pass reads
  \<open>artist_info['confidence']\<close> and joins \<open>artist_info['sources']\<close> again.
\<close>

fun insert_genres ::
  "nat option \<Rightarrow> nat \<Rightarrow> int \<Rightarrow> dict \<Rightarrow> string list \<Rightarrow> genre_row list \<Rightarrow> exn + genre_row list" where
  "insert_genres fault k artist_id artist_info [] rows = Inr rows"
| "insert_genres fault k artist_id artist_info (genre # gs) rows =
     (case getitem_float artist_info ''confidence'' of
        Inl e \<Rightarrow> Inl e
      | Inr confidence \<Rightarrow>
          (case getitem_strs artist_info ''sources'' of
             Inl e \<Rightarrow> Inl e
           | Inr sources \<Rightarrow>
               if fault = Some k then Inl OperationalError
               else insert_genres fault (Suc k) artist_id artist_info gs
                      (rows @ [GenreRow artist_id genre confidence (join_comma sources)])))"

text \<open>
  The \<open>try\<close> block of \<open>save_artist_to_db\<close>, lines 175-190. Python does not fix the
  order in which a set is iterated; the model takes the distinct genres in the order
  \<open>remdups\<close> leaves them, and the theorems below speak of the rows written, not of
  their order.
\<close>

definition save_transaction :: "nat option \<Rightarrow> string \<Rightarrow> dict \<Rightarrow> db \<Rightarrow> exn + db" where
  "save_transaction fault now artist_info d =
     (case getitem_str artist_info ''name'' of
        Inl e \<Rightarrow> Inl e
      | Inr name \<Rightarrow>
     (case getitem_bool artist_info ''is_local'' of
        Inl e \<Rightarrow> Inl e
      | Inr is_local \<Rightarrow>
     (case getitem_strs artist_info ''sources'' of
        Inl e \<Rightarrow> Inl e
      | Inr sources \<Rightarrow>
     (case insert_artist fault name is_local (join_comma sources) now d of
        Inl e \<Rightarrow> Inl e
      | Inr (artist_id, d1) \<Rightarrow>
     (case getitem_strs artist_info ''genres'' of
        Inl e \<Rightarrow> Inl e
      | Inr genres \<Rightarrow>
     (case insert_genres fault 1 artist_id artist_info (remdups genres) (artist_genres d1) of
        Inl e \<Rightarrow> Inl e
      | Inr rows \<Rightarrow>
          if fault = Some (Suc (length (remdups genres))) then Inl OperationalError
          else Inr (d1\<lparr>artist_genres := rows\<rparr>)))))))"

text \<open>
  \<open>save_artist_to_db\<close>, lines 169-195: the transaction committed, or, on any exception,
  the message printed and \<open>conn.rollback()\<close>. The method returns nothing either way;
  the id read from \<open>c.lastrowid\<close> stays local to it.
\<close>

definition save_artist_to_db :: "nat option \<Rightarrow> string \<Rightarrow> dict \<Rightarrow> db \<Rightarrow> db" where
  "save_artist_to_db fault now artist_info d =
     (case save_transaction fault now artist_info d of
        Inl e \<Rightarrow> d
      | Inr d' \<Rightarrow> d')"

subsection \<open>Gathering and merging\<close>

definition getitem_int :: "dict \<Rightarrow> string \<Rightarrow> exn + int" where
  "getitem_int d k =
     (case d k of None \<Rightarrow> Inl (KeyError k) | Some (PInt i) \<Rightarrow> Inr i | Some _ \<Rightarrow> Inl TypeError)"

text \<open>
  What \<open>gather_artist_info\<close> does with the fragment of the social-media check (lines
  89-92) and, in the same words, with that of the venue-history check (lines 97-100).
\<close>

definition merge_fragment :: "dict \<Rightarrow> dict \<Rightarrow> exn + dict" where
  "merge_fragment info frag =
     (case getitem info ''is_local'' of
        Inl e \<Rightarrow> Inl e
      | Inr l \<Rightarrow>
          (let info1 = info(''is_local'' \<mapsto>
                         py_or l (case frag ''is_local'' of None \<Rightarrow> PBool False | Some v \<Rightarrow> v))
           in case (if (case frag ''genres'' of None \<Rightarrow> False | Some v \<Rightarrow> truthy v)
                    then (case getitem_strs info1 ''genres'' of
                            Inl e \<Rightarrow> Inl e
                          | Inr gs \<Rightarrow>
                              (case getitem_strs frag ''genres'' of
                                 Inl e \<Rightarrow> Inl e
                               | Inr fgs \<Rightarrow> Inr (info1(''genres'' \<mapsto> PStrs (gs @ fgs)))))
                    else Inr info1) of
                Inl e \<Rightarrow> Inl e
              | Inr info2 \<Rightarrow>
                  (case getitem_strs info2 ''sources'' of
                     Inl e \<Rightarrow> Inl e
                   | Inr srcs \<Rightarrow>
                       (case (case frag ''sources'' of
                                None \<Rightarrow> Inr []
                              | Some (PStrs xs) \<Rightarrow> Inr xs
                              | Some _ \<Rightarrow> Inl TypeError) of
                          Inl e \<Rightarrow> Inl e
                        | Inr fsrcs \<Rightarrow> Inr (info2(''sources'' \<mapsto> PStrs (srcs @ fsrcs)))))))"

text \<open>
  Lines 71-84: the initial dictionary, \<open>info.update(spotify_info)\<close> and
  \<open>info['sources'].append('spotify')\<close>.
\<close>

definition initial_info :: "string \<Rightarrow> dict" where
  "initial_info artist_name =
     [''name'' \<mapsto> PStr artist_name,
      ''genres'' \<mapsto> PStrs [],
      ''is_local'' \<mapsto> PBool False,
      ''confidence'' \<mapsto> PFloat 0.0,
      ''sources'' \<mapsto> PStrs []]"

definition merge_spotify :: "spotify_client option \<Rightarrow> string \<Rightarrow> dict \<Rightarrow> exn + dict" where
  "merge_spotify spotify artist_name info =
     (if spotify \<noteq> None then
        (case get_spotify_info spotify artist_name of
           None \<Rightarrow> Inr info
         | Some spotify_info \<Rightarrow>
             (let info1 = info ++ spotify_info
              in case getitem_strs info1 ''sources'' of
                   Inl e \<Rightarrow> Inl e
                 | Inr srcs \<Rightarrow> Inr (info1(''sources'' \<mapsto> PStrs (srcs @ [''spotify''])))))
      else Inr info)"

text \<open>
  \<open>gather_artist_info\<close>, lines 69-106. The tests \<open>if spotify_info:\<close>,
  \<open>if social_info:\<close> and \<open>if venue_info:\<close> are on a dictionary or \<open>None\<close>; the
  dictionaries the three adapters return have keys, so each test is whether the adapter
  returned one. The last step reads \<open>info['id']\<close> when a venue was given.
\<close>

definition gather_artist_info ::
  "spotify_client option \<Rightarrow> bool \<Rightarrow> string \<Rightarrow> string \<Rightarrow> string option \<Rightarrow> db
     \<Rightarrow> (exn + dict) \<times> db" where
  "gather_artist_info spotify visit_fault now artist_name venue d =
     (case merge_spotify spotify artist_name (initial_info artist_name) of
        Inl e \<Rightarrow> (Inl e, d)
      | Inr info1 \<Rightarrow>
     (case (case check_social_media artist_name of
              None \<Rightarrow> Inr info1
            | Some social_info \<Rightarrow> merge_fragment info1 social_info) of
        Inl e \<Rightarrow> (Inl e, d)
      | Inr info2 \<Rightarrow>
     (case (case check_venue_history artist_name of
              None \<Rightarrow> Inr info2
            | Some venue_info \<Rightarrow> merge_fragment info2 venue_info) of
        Inl e \<Rightarrow> (Inl e, d)
      | Inr info \<Rightarrow>
          if venue_given venue then
            (case getitem_int info ''id'' of
               Inl e \<Rightarrow> (Inl e, d)
             | Inr artist_id \<Rightarrow>
                 (Inr info, update_venue_info visit_fault artist_id (the venue) now d))
          else (Inr info, d))))"

subsection \<open>The entry point\<close>

text \<open>
  \<open>process_artist\<close>, lines 54-67. The result is the value returned or the exception
  raised, and the database afterwards. \<open>process_miss\<close> is lines 64-67, the part that
  runs when the lookup found nothing.
\<close>

definition process_miss ::
  "spotify_client option \<Rightarrow> faults \<Rightarrow> string \<Rightarrow> string \<Rightarrow> string option \<Rightarrow> db
     \<Rightarrow> (exn + dict) \<times> db" where
  "process_miss spotify fl now artist_name venue d =
     (case gather_artist_info spotify (visit_fails fl) now artist_name venue d of
        (Inl e, d1) \<Rightarrow> (Inl e, d1)
      | (Inr artist_info, d1) \<Rightarrow>
          (Inr artist_info, save_artist_to_db (save_fails_at fl) now artist_info d1))"

definition process_artist ::
  "spotify_client option \<Rightarrow> faults \<Rightarrow> string \<Rightarrow> string \<Rightarrow> string option \<Rightarrow> db
     \<Rightarrow> (exn + dict) \<times> db" where
  "process_artist spotify fl now artist_name venue d =
     (case get_artist_from_db (find_fails fl) artist_name d of
        Some artist_info \<Rightarrow>
          if venue_given venue then
            (case getitem_int artist_info ''id'' of
               Inl e \<Rightarrow> (Inl e, d)
             | Inr artist_id \<Rightarrow>
                 (Inr artist_info,
                  update_venue_info (visit_fails fl) artist_id (the venue) now d))
          else (Inr artist_info, d)
      | None \<Rightarrow> process_miss spotify fl now artist_name venue d)"

subsection \<open>Well-formed and reachable databases\<close>

text \<open>
  What the schema and the code keep true of the three tables: \<open>id\<close> is the primary
  key of \<open>artists\<close>, \<open>name\<close> is unique, every genre row belongs to an artist, and an
  artist has each genre at most once.
\<close>

definition db_wf :: "db \<Rightarrow> bool" where
  "db_wf d \<longleftrightarrow>
     distinct (map a_id (artists d)) \<and>
     distinct (map a_name (artists d)) \<and>
     list_all (\<lambda>r. g_artist_id r \<in> set (map a_id (artists d))) (artist_genres d) \<and>
     list_all (\<lambda>a. distinct (select_genres d (a_id a))) (artists d)"

text \<open>The databases that calls of \<open>process_artist\<close> produce from the empty one.\<close>

inductive reachable :: "db \<Rightarrow> bool" where
  reachable_empty: "reachable empty_db"
| reachable_step:
    "reachable d \<Longrightarrow> process_artist spotify fl now artist_name venue d = (r, d')
       \<Longrightarrow> reachable d'"

section \<open>Properties\<close>

subsection \<open>The two adapters that return nothing\<close>

lemma check_social_media_None: "check_social_media n = None"
  by (simp add: check_social_media_def getitem_def)

lemma check_venue_history_None: "check_venue_history n = None"
  by (simp add: check_venue_history_def getitem_def)

subsection \<open>The save transaction\<close>

lemma next_rowid_fresh: "next_rowid rows \<notin> set (map a_id rows)"
proof
  assume h: "next_rowid rows \<in> set (map a_id rows)"
  then have ne: "rows \<noteq> []" by auto
  from h have "next_rowid rows \<le> Max (set (map a_id rows))"
    by (intro Max_ge) auto
  with ne show False by (simp add: next_rowid_def)
qed

lemma insert_genres_Inr:
  "insert_genres fault k aid info gs rows = Inr rows' \<Longrightarrow>
   \<exists>c srcs. rows' = rows @ map (\<lambda>g. GenreRow aid g c (join_comma srcs)) gs \<and>
     (gs \<noteq> [] \<longrightarrow> info ''confidence'' = Some (PFloat c) \<and> info ''sources'' = Some (PStrs srcs))"
proof (induction gs arbitrary: k rows)
  case Nil
  then show ?case by simp
next
  case (Cons g gs)
  from Cons.prems obtain c srcs where
    c: "info ''confidence'' = Some (PFloat c)" and s: "info ''sources'' = Some (PStrs srcs)"
    and nf: "fault \<noteq> Some k"
    and rec: "insert_genres fault (Suc k) aid info gs (rows @ [GenreRow aid g c (join_comma srcs)]) = Inr rows'"
    by (auto simp: getitem_float_def getitem_strs_def split: sum.splits option.splits pyval.splits if_splits)
  from Cons.IH[OF rec] obtain c' srcs' where
    r: "rows' = (rows @ [GenreRow aid g c (join_comma srcs)]) @ map (\<lambda>g. GenreRow aid g c' (join_comma srcs')) gs"
    and k: "gs \<noteq> [] \<longrightarrow> info ''confidence'' = Some (PFloat c') \<and> info ''sources'' = Some (PStrs srcs')"
    by blast
  show ?case
  proof (cases "gs = []")
    case True
    with r c s show ?thesis by auto
  next
    case False
    with k c s have "c' = c" "srcs' = srcs" by auto
    with r c s show ?thesis by auto
  qed
qed

lemma insert_genres_healthy:
  "info ''confidence'' = Some (PFloat c) \<Longrightarrow> info ''sources'' = Some (PStrs srcs) \<Longrightarrow>
   insert_genres None k aid info gs rows = Inr (rows @ map (\<lambda>g. GenreRow aid g c (join_comma srcs)) gs)"
  by (induction gs arbitrary: k rows) (auto simp: getitem_float_def getitem_strs_def)

lemma save_transaction_Inr:
  assumes "save_transaction fault now info d = Inr d'"
  shows "\<exists>name loc srcs genres c.
           info ''name'' = Some (PStr name) \<and> info ''is_local'' = Some (PBool loc) \<and>
           info ''sources'' = Some (PStrs srcs) \<and> info ''genres'' = Some (PStrs genres) \<and>
           (remdups genres \<noteq> [] \<longrightarrow> info ''confidence'' = Some (PFloat c)) \<and>
           name \<notin> set (map a_name (artists d)) \<and>
           d' = \<lparr>artists = artists d @
                    [ArtistRow (next_rowid (artists d)) name loc (join_comma srcs) now],
                 artist_genres = artist_genres d @
                    map (\<lambda>g. GenreRow (next_rowid (artists d)) g c (join_comma srcs)) (remdups genres),
                 artist_venues = artist_venues d\<rparr>"
proof -
  from assms obtain name loc srcs genres aid d1 rows where
    n: "info ''name'' = Some (PStr name)" and l: "info ''is_local'' = Some (PBool loc)"
    and s: "info ''sources'' = Some (PStrs srcs)" and g: "info ''genres'' = Some (PStrs genres)"
    and ia: "insert_artist fault name loc (join_comma srcs) now d = Inr (aid, d1)"
    and ig: "insert_genres fault 1 aid info (remdups genres) (artist_genres d1) = Inr rows"
    and d': "d' = d1\<lparr>artist_genres := rows\<rparr>"
    by (auto simp: save_transaction_def getitem_str_def getitem_bool_def getitem_strs_def
             split: sum.splits option.splits pyval.splits if_splits prod.splits)
  from ia have nn: "name \<notin> set (map a_name (artists d))"
    and aid: "aid = next_rowid (artists d)"
    and d1: "d1 = d\<lparr>artists := artists d @ [ArtistRow (next_rowid (artists d)) name loc (join_comma srcs) now]\<rparr>"
    by (auto simp: insert_artist_def Let_def split: if_splits)
  from insert_genres_Inr[OF ig] obtain c srcs' where
    rows: "rows = artist_genres d1 @ map (\<lambda>g. GenreRow aid g c (join_comma srcs')) (remdups genres)"
    and k: "remdups genres \<noteq> [] \<longrightarrow> info ''confidence'' = Some (PFloat c) \<and> info ''sources'' = Some (PStrs srcs')"
    by blast
  have rows': "rows = artist_genres d1 @ map (\<lambda>g. GenreRow aid g c (join_comma srcs)) (remdups genres)"
  proof (cases "remdups genres = []")
    case True
    with rows show ?thesis by simp
  next
    case False
    with k s have "srcs' = srcs" by auto
    with rows show ?thesis by simp
  qed
  from k have kc: "remdups genres \<noteq> [] \<longrightarrow> info ''confidence'' = Some (PFloat c)" by simp
  have "d' = \<lparr>artists = artists d @
                    [ArtistRow (next_rowid (artists d)) name loc (join_comma srcs) now],
                 artist_genres = artist_genres d @
                    map (\<lambda>g. GenreRow (next_rowid (artists d)) g c (join_comma srcs)) (remdups genres),
                 artist_venues = artist_venues d\<rparr>"
    using d' d1 rows' aid by simp
  with n l s g kc nn show ?thesis by blast
qed


subsection \<open>What gathering returns\<close>

lemma merge_spotify_initial:
  "merge_spotify sp n (initial_info n) =
     Inr (case get_spotify_info sp n of
            None \<Rightarrow> initial_info n
          | Some f \<Rightarrow> (initial_info n ++ f)(''sources'' \<mapsto> PStrs [''spotify'']))"
  by (auto simp: merge_spotify_def get_spotify_info_def initial_info_def getitem_strs_def map_add_def
           split: option.splits search_outcome.splits list.splits)

lemma merged_no_id:
  "(case get_spotify_info sp n of
      None \<Rightarrow> initial_info n
    | Some f \<Rightarrow> (initial_info n ++ f)(''sources'' \<mapsto> PStrs [''spotify''])) ''id'' = None"
  by (auto simp: initial_info_def get_spotify_info_def map_add_def
           split: option.splits search_outcome.splits list.splits)

lemma gather_no_venue:
  "\<not> venue_given venue \<Longrightarrow>
   gather_artist_info sp vf now n venue d =
     (Inr (case get_spotify_info sp n of
             None \<Rightarrow> initial_info n
           | Some f \<Rightarrow> (initial_info n ++ f)(''sources'' \<mapsto> PStrs [''spotify''])), d)"
  by (simp add: gather_artist_info_def merge_spotify_initial check_social_media_None
        check_venue_history_None)

lemma gather_venue:
  "venue_given venue \<Longrightarrow>
   gather_artist_info sp vf now n venue d = (Inl (KeyError ''id''), d)"
  by (simp add: gather_artist_info_def merge_spotify_initial check_social_media_None
        check_venue_history_None getitem_int_def merged_no_id)

lemma process_miss_venue:
  "venue_given venue \<Longrightarrow> process_miss sp fl now n venue d = (Inl (KeyError ''id''), d)"
  by (simp add: process_miss_def gather_venue)

lemma get_artist_from_db_empty: "get_artist_from_db ff n empty_db = None"
  by (simp add: get_artist_from_db_def empty_db_def)

lemma process_artist_miss_venue:
  "get_artist_from_db (find_fails fl) n d = None \<Longrightarrow> venue_given venue \<Longrightarrow>
   process_artist sp fl now n venue d = (Inl (KeyError ''id''), d)"
  by (simp add: process_artist_def process_miss_venue)

subsection \<open>The lookup and the two branches of the entry point\<close>

lemma get_artist_from_db_None_iff:
  "get_artist_from_db False n d = None \<longleftrightarrow> n \<notin> set (map a_name (artists d))"
proof (cases "find (\<lambda>r. a_name r = n) (artists d)")
  case None
  then have "n \<notin> set (map a_name (artists d))" by (auto simp: find_None_iff)
  with None show ?thesis by (simp add: get_artist_from_db_def)
next
  case (Some a)
  then have "a \<in> set (artists d)" "a_name a = n" by (auto simp: find_Some_iff)
  with Some show ?thesis by (auto simp: get_artist_from_db_def)
qed

lemma get_artist_from_db_Some:
  assumes "get_artist_from_db ff n d = Some r"
  shows "\<exists>a. find (\<lambda>r. a_name r = n) (artists d) = Some a \<and> a \<in> set (artists d) \<and> a_name a = n \<and> \<not> ff \<and>
           r = [''id'' \<mapsto> PInt (a_id a),
                ''name'' \<mapsto> PStr n,
                ''is_local'' \<mapsto> PInt (if a_is_local a then 1 else 0),
                ''verification_source'' \<mapsto> PStr (a_verification_source a),
                ''last_updated'' \<mapsto> PStr (a_last_updated a),
                ''genres'' \<mapsto> PStrs (select_genres d (a_id a)),
                ''venues'' \<mapsto> PPairs (select_venues d (a_id a))]"
proof -
  from assms obtain a where f: "find (\<lambda>r. a_name r = n) (artists d) = Some a" and nf: "\<not> ff"
    by (auto simp: get_artist_from_db_def split: if_splits option.splits)
  from f have "a \<in> set (artists d)" "a_name a = n"
    by (auto simp: find_Some_iff)
  with f nf assms show ?thesis
    by (auto simp: get_artist_from_db_def)
qed

lemma gathered_fields:
  assumes "gather_artist_info sp vf now n venue d = (Inr info, d1)"
  shows "d1 = d" and "\<not> venue_given venue"
    and "info ''name'' = Some (PStr n)"
    and "info ''is_local'' = Some (PBool False)"
    and "info ''id'' = None"
    and "info ''venues'' = None"
    and "\<exists>gs c srcs. info ''genres'' = Some (PStrs gs) \<and> info ''confidence'' = Some (PFloat c) \<and>
           info ''sources'' = Some (PStrs srcs)"
    and "info = (case get_spotify_info sp n of
                   None \<Rightarrow> initial_info n
                 | Some f \<Rightarrow> (initial_info n ++ f)(''sources'' \<mapsto> PStrs [''spotify'']))"
proof -
  show nv: "\<not> venue_given venue"
    using assms by (auto simp: gather_venue)
  from gather_no_venue[OF nv, of sp vf now n d] assms
  show "d1 = d" and i: "info = (case get_spotify_info sp n of
                   None \<Rightarrow> initial_info n
                 | Some f \<Rightarrow> (initial_info n ++ f)(''sources'' \<mapsto> PStrs [''spotify'']))"
    by simp_all
  show "info ''name'' = Some (PStr n)" "info ''is_local'' = Some (PBool False)"
    "info ''id'' = None" "info ''venues'' = None"
    unfolding i
    by (auto simp: initial_info_def get_spotify_info_def map_add_def
           split: option.splits search_outcome.splits list.splits)
  show "\<exists>gs c srcs. info ''genres'' = Some (PStrs gs) \<and> info ''confidence'' = Some (PFloat c) \<and>
           info ''sources'' = Some (PStrs srcs)"
    unfolding i
    by (auto simp: initial_info_def get_spotify_info_def map_add_def
           split: option.splits search_outcome.splits list.splits)
qed

lemma save_transaction_healthy:
  assumes "info ''name'' = Some (PStr name)" and "info ''is_local'' = Some (PBool loc)"
    and "info ''sources'' = Some (PStrs srcs)" and "info ''genres'' = Some (PStrs genres)"
    and "info ''confidence'' = Some (PFloat c)"
    and "name \<notin> set (map a_name (artists d))"
  shows "save_transaction None now info d =
           Inr \<lparr>artists = artists d @
                    [ArtistRow (next_rowid (artists d)) name loc (join_comma srcs) now],
                 artist_genres = artist_genres d @
                    map (\<lambda>g. GenreRow (next_rowid (artists d)) g c (join_comma srcs)) (remdups genres),
                 artist_venues = artist_venues d\<rparr>"
  using assms
  by (simp add: save_transaction_def getitem_str_def getitem_bool_def getitem_strs_def
        insert_artist_def Let_def insert_genres_healthy)

lemma save_transaction_duplicate:
  assumes "info ''name'' = Some (PStr name)" and "info ''is_local'' = Some (PBool loc)"
    and "info ''sources'' = Some (PStrs srcs)"
    and "name \<in> set (map a_name (artists d))"
  shows "save_transaction fault now info d =
           Inl (if fault = Some 0 then OperationalError else IntegrityError)"
  using assms
  by (simp add: save_transaction_def getitem_str_def getitem_bool_def getitem_strs_def
        insert_artist_def)

lemma save_artist_to_db_present:
  assumes "info ''name'' = Some (PStr name)" and "name \<in> set (map a_name (artists d))"
  shows "save_artist_to_db fault now info d = d"
  using assms
  by (auto simp: save_artist_to_db_def save_transaction_def getitem_str_def insert_artist_def
       split: sum.splits)

lemma process_artist_hit:
  assumes "get_artist_from_db (find_fails fl) n d = Some r"
  shows "\<exists>a. find (\<lambda>r. a_name r = n) (artists d) = Some a \<and>
           process_artist sp fl now n venue d =
             (Inr r, if venue_given venue
                     then update_venue_info (visit_fails fl) (a_id a) (the venue) now d
                     else d)"
proof -
  from get_artist_from_db_Some[OF assms] obtain a where
    f: "find (\<lambda>r. a_name r = n) (artists d) = Some a" and
    r: "r ''id'' = Some (PInt (a_id a))"
    by auto
  from r have "getitem_int r ''id'' = Inr (a_id a)" by (simp add: getitem_int_def)
  with f assms show ?thesis by (auto simp: process_artist_def)
qed

lemma process_artist_miss_no_venue:
  assumes "get_artist_from_db (find_fails fl) n d = None" and "\<not> venue_given venue"
  shows "\<exists>info. gather_artist_info sp (visit_fails fl) now n venue d = (Inr info, d) \<and>
           process_artist sp fl now n venue d =
             (Inr info, save_artist_to_db (save_fails_at fl) now info d)"
  using assms by (simp add: process_artist_def process_miss_def gather_no_venue)

subsection \<open>Every reachable database is well-formed\<close>

lemma db_wf_empty: "db_wf empty_db"
  by (simp add: db_wf_def empty_db_def)

lemma update_venue_info_wf: "db_wf d \<Longrightarrow> db_wf (update_venue_info f i v now d)"
  by (simp add: db_wf_def update_venue_info_def select_genres_def)

lemma select_genres_orphan:
  assumes "list_all (\<lambda>r. g_artist_id r \<in> set (map a_id (artists d))) (artist_genres d)"
    and "i \<notin> set (map a_id (artists d))"
  shows "select_genres d i = []"
  using assms by (auto simp: select_genres_def list_all_iff filter_empty_conv)

lemma save_artist_to_db_wf:
  assumes wf: "db_wf d"
  shows "db_wf (save_artist_to_db fault now info d)"
proof (cases "save_transaction fault now info d")
  case (Inl e)
  with wf show ?thesis by (simp add: save_artist_to_db_def)
next
  case (Inr d')
  from save_transaction_Inr[OF Inr] obtain name loc srcs genres c where
    nn: "name \<notin> set (map a_name (artists d))" and
    d': "d' = \<lparr>artists = artists d @
                    [ArtistRow (next_rowid (artists d)) name loc (join_comma srcs) now],
                 artist_genres = artist_genres d @
                    map (\<lambda>g. GenreRow (next_rowid (artists d)) g c (join_comma srcs)) (remdups genres),
                 artist_venues = artist_venues d\<rparr>"
    by blast
  let ?i = "next_rowid (artists d)"
  have fresh: "?i \<notin> set (map a_id (artists d))" by (rule next_rowid_fresh)
  from wf have ids: "distinct (map a_id (artists d))" and names: "distinct (map a_name (artists d))"
    and fk: "list_all (\<lambda>r. g_artist_id r \<in> set (map a_id (artists d))) (artist_genres d)"
    and gd: "list_all (\<lambda>a. distinct (select_genres d (a_id a))) (artists d)"
    by (simp_all add: db_wf_def)
  have sel: "select_genres d' j = select_genres d j @ (if j = ?i then remdups genres else [])" for j
    by (simp add: d' select_genres_def o_def)
  have new: "distinct (select_genres d' ?i)"
    by (simp add: sel select_genres_orphan[OF fk fresh])
  have old: "list_all (\<lambda>a. distinct (select_genres d' (a_id a))) (artists d)"
  proof -
    have ne: "a_id a \<noteq> ?i" if "a \<in> set (artists d)" for a
    proof
      assume "a_id a = ?i"
      with that have "?i \<in> a_id ` set (artists d)" by (metis imageI)
      with fresh show False by simp
    qed
    show ?thesis using gd ne by (simp add: list_all_iff sel)
  qed
  have "db_wf d'"
    unfolding db_wf_def
  proof (intro conjI)
    show "distinct (map a_id (artists d'))" using ids fresh by (simp add: d')
    show "distinct (map a_name (artists d'))" using names nn by (simp add: d')
    show "list_all (\<lambda>r. g_artist_id r \<in> set (map a_id (artists d'))) (artist_genres d')"
      using fk by (auto simp: d' list_all_iff)
    show "list_all (\<lambda>a. distinct (select_genres d' (a_id a))) (artists d')"
      using old new by (simp add: d')
  qed
  with Inr show ?thesis by (simp add: save_artist_to_db_def)
qed

lemma gather_artist_info_db: "snd (gather_artist_info sp vf now n venue d) = d"
  by (cases "venue_given venue") (simp_all add: gather_venue gather_no_venue)

lemma process_artist_wf:
  assumes "db_wf d"
  shows "db_wf (snd (process_artist sp fl now n venue d))"
proof (cases "get_artist_from_db (find_fails fl) n d")
  case None
  show ?thesis
  proof (cases "venue_given venue")
    case True
    with None assms show ?thesis by (simp add: process_artist_miss_venue)
  next
    case False
    from process_artist_miss_no_venue[OF None False, of sp now] assms
    show ?thesis by (auto simp: save_artist_to_db_wf)
  qed
next
  case (Some r)
  from process_artist_hit[OF Some, of sp now venue] assms
  show ?thesis by (auto simp: update_venue_info_wf)
qed

lemma reachable_wf: "reachable d \<Longrightarrow> db_wf d"
proof (induction rule: reachable.induct)
  case reachable_empty
  show ?case by (rule db_wf_empty)
next
  case (reachable_step d spotify fl now artist_name venue r d')
  from process_artist_wf[OF reachable_step.IH, of spotify fl now artist_name venue]
    reachable_step.hyps(2)
  show ?case by simp
qed

subsection \<open>Keys, genres and errors of a resolution\<close>




lemma get_spotify_info_items:
  "client n = SearchItems (a # rest) \<Longrightarrow>
   get_spotify_info (Some client) n =
     Some [''genres'' \<mapsto> PStrs (sp_genres a),
           ''popularity'' \<mapsto> PInt (sp_popularity a),
           ''spotify_id'' \<mapsto> PStr (sp_id a),
           ''confidence'' \<mapsto> PFloat (if lower (sp_name a) = lower n then 0.8 else 0.5)]"
  by (simp add: get_spotify_info_def)


lemma find_app:
  "find P (xs @ ys) = (case find P xs of None \<Rightarrow> find P ys | Some x \<Rightarrow> Some x)"
  by (induction xs) auto

lemma merge_fragment_genres:
  assumes "merge_fragment info frag = Inr info'"
    and "info ''genres'' = Some (PStrs gs)" and "frag ''genres'' = Some (PStrs fgs)"
  shows "info' ''genres'' = Some (PStrs (gs @ fgs))"
  using assms
  by (cases "fgs = []")
     (auto simp: merge_fragment_def getitem_def getitem_strs_def Let_def
           split: sum.splits option.splits pyval.splits if_splits)

lemma save_transaction_genres:
  assumes wf: "db_wf d" and ok: "save_transaction fault now info d = Inr d'"
    and g: "info ''genres'' = Some (PStrs genres)"
  shows "distinct (select_genres d' (next_rowid (artists d)))"
    and "set (select_genres d' (next_rowid (artists d))) = set genres"
    and "info ''name'' = Some (PStr n) \<Longrightarrow>
         \<exists>a. find (\<lambda>r. a_name r = n) (artists d') = Some a \<and> a_id a = next_rowid (artists d)"
proof -
  from save_transaction_Inr[OF ok] g obtain name loc srcs c where
    nm: "info ''name'' = Some (PStr name)" and
    nn: "name \<notin> set (map a_name (artists d))" and
    d': "d' = \<lparr>artists = artists d @
                    [ArtistRow (next_rowid (artists d)) name loc (join_comma srcs) now],
                 artist_genres = artist_genres d @
                    map (\<lambda>g. GenreRow (next_rowid (artists d)) g c (join_comma srcs)) (remdups genres),
                 artist_venues = artist_venues d\<rparr>"
    by auto
  from wf have fk: "list_all (\<lambda>r. g_artist_id r \<in> set (map a_id (artists d))) (artist_genres d)"
    by (simp add: db_wf_def)
  have sel: "select_genres d' (next_rowid (artists d)) = remdups genres"
    using select_genres_orphan[OF fk next_rowid_fresh]
    by (simp add: d' select_genres_def o_def)
  show "distinct (select_genres d' (next_rowid (artists d)))" by (simp add: sel)
  show "set (select_genres d' (next_rowid (artists d))) = set genres" by (simp add: sel)
  show "\<exists>a. find (\<lambda>r. a_name r = n) (artists d') = Some a \<and> a_id a = next_rowid (artists d)"
    if n: "info ''name'' = Some (PStr n)"
  proof -
    from n nm have "name = n" by simp
    with nn have "find (\<lambda>r. a_name r = n) (artists d) = None"
      by (auto simp: find_None_iff)
    then show ?thesis using \<open>name = n\<close> by (simp add: d' find_app)
  qed
qed

lemma get_artist_from_db_find:
  assumes "find (\<lambda>r. a_name r = n) (artists d) = Some a"
  shows "get_artist_from_db False n d =
           Some [''id'' \<mapsto> PInt (a_id a),
                 ''name'' \<mapsto> PStr (a_name a),
                 ''is_local'' \<mapsto> PInt (if a_is_local a then 1 else 0),
                 ''verification_source'' \<mapsto> PStr (a_verification_source a),
                 ''last_updated'' \<mapsto> PStr (a_last_updated a),
                 ''genres'' \<mapsto> PStrs (select_genres d (a_id a)),
                 ''venues'' \<mapsto> PPairs (select_venues d (a_id a))]"
  using assms by (simp add: get_artist_from_db_def)

lemma update_venue_info_tables:
  "artists (update_venue_info f i v now d) = artists d"
  "artist_genres (update_venue_info f i v now d) = artist_genres d"
  by (simp_all add: update_venue_info_def)

lemma process_artist_present_tables:
  assumes "find (\<lambda>r. a_name r = n) (artists d) = Some a"
  shows "artists (snd (process_artist sp fl now n venue d)) = artists d"
    and "artist_genres (snd (process_artist sp fl now n venue d)) = artist_genres d"
proof -
  from assms have present: "n \<in> set (map a_name (artists d))"
    by (auto simp: find_Some_iff)
  have "artists (snd (process_artist sp fl now n venue d)) = artists d \<and>
        artist_genres (snd (process_artist sp fl now n venue d)) = artist_genres d"
  proof (cases "get_artist_from_db (find_fails fl) n d")
    case (Some r)
    from process_artist_hit[OF Some, where sp=sp and now=now and venue=venue]
    show ?thesis by (auto simp: update_venue_info_tables)
  next
    case None
    show ?thesis
    proof (cases "venue_given venue")
      case True
      with None show ?thesis by (simp add: process_artist_miss_venue)
    next
      case False
      from process_artist_miss_no_venue[OF None False, where sp=sp and now=now] obtain info where
        g: "gather_artist_info sp (visit_fails fl) now n venue d = (Inr info, d)" and
        p: "process_artist sp fl now n venue d =
              (Inr info, save_artist_to_db (save_fails_at fl) now info d)"
        by blast
      from save_artist_to_db_present[where info=info and name=n and d=d, OF gathered_fields(3)[OF g] present] p
      show ?thesis by simp
    qed
  qed
  then show "artists (snd (process_artist sp fl now n venue d)) = artists d"
    and "artist_genres (snd (process_artist sp fl now n venue d)) = artist_genres d"
    by simp_all
qed

lemma process_artist_new:
  assumes absent: "n \<notin> set (map a_name (artists d))" and nv: "\<not> venue_given venue"
  shows "\<exists>info gs c srcs.
           process_artist sp healthy now n venue d =
             (Inr info,
              \<lparr>artists = artists d @
                   [ArtistRow (next_rowid (artists d)) n False (join_comma srcs) now],
               artist_genres = artist_genres d @
                   map (\<lambda>g. GenreRow (next_rowid (artists d)) g c (join_comma srcs)) (remdups gs),
               artist_venues = artist_venues d\<rparr>) \<and>
           info ''name'' = Some (PStr n) \<and> info ''id'' = None \<and>
           info ''genres'' = Some (PStrs gs) \<and> info ''confidence'' = Some (PFloat c) \<and>
           info ''sources'' = Some (PStrs srcs)"
proof -
  from absent have miss: "get_artist_from_db (find_fails healthy) n d = None"
    by (simp add: healthy_def get_artist_from_db_None_iff)
  from process_artist_miss_no_venue[OF miss nv, where sp=sp and now=now] obtain info where
    g: "gather_artist_info sp (visit_fails healthy) now n venue d = (Inr info, d)" and
    p: "process_artist sp healthy now n venue d =
          (Inr info, save_artist_to_db (save_fails_at healthy) now info d)"
    by blast
  note f = gathered_fields[OF g]
  from f(7) obtain gs c srcs where
    k: "info ''genres'' = Some (PStrs gs)" "info ''confidence'' = Some (PFloat c)"
       "info ''sources'' = Some (PStrs srcs)"
    by blast
  from save_transaction_healthy[where info=info, OF f(3) f(4) k(3) k(1) k(2) absent, of now]
  have "save_artist_to_db (save_fails_at healthy) now info d =
          \<lparr>artists = artists d @
                   [ArtistRow (next_rowid (artists d)) n False (join_comma srcs) now],
               artist_genres = artist_genres d @
                   map (\<lambda>g. GenreRow (next_rowid (artists d)) g c (join_comma srcs)) (remdups gs),
               artist_venues = artist_venues d\<rparr>"
    by (simp add: save_artist_to_db_def healthy_def)
  with p f(3) f(5) k show ?thesis by auto
qed

lemma second_resolve_is_hit:
  assumes wf: "db_wf d" and absent: "n \<notin> set (map a_name (artists d))"
    and p1: "process_artist sp1 healthy t1 n None d = (r1, d1)"
  shows "\<exists>m1 m2 gs.
           r1 = Inr m1 \<and> m1 ''id'' = None \<and> m1 ''genres'' = Some (PStrs gs) \<and>
           process_artist sp2 healthy t2 n None d1 = (Inr m2, d1) \<and>
           m2 ''id'' = Some (PInt (next_rowid (artists d))) \<and>
           m2 ''genres'' = Some (PStrs (remdups gs))"
proof -
  have nv: "\<not> venue_given None" by simp
  from process_artist_new[OF absent nv, where sp=sp1 and now=t1] p1
  obtain m1 gs c srcs where
    r1: "r1 = Inr m1" and
    d1: "d1 = \<lparr>artists = artists d @
                   [ArtistRow (next_rowid (artists d)) n False (join_comma srcs) t1],
               artist_genres = artist_genres d @
                   map (\<lambda>g. GenreRow (next_rowid (artists d)) g c (join_comma srcs)) (remdups gs),
               artist_venues = artist_venues d\<rparr>" and
    m1: "m1 ''id'' = None" "m1 ''genres'' = Some (PStrs gs)"
    by auto
  let ?a = "ArtistRow (next_rowid (artists d)) n False (join_comma srcs) t1"
  from absent have "find (\<lambda>r. a_name r = n) (artists d) = None"
    by (auto simp: find_None_iff)
  then have f: "find (\<lambda>r. a_name r = n) (artists d1) = Some ?a"
    by (simp add: d1 find_app)
  from wf have fk: "list_all (\<lambda>r. g_artist_id r \<in> set (map a_id (artists d))) (artist_genres d)"
    by (simp add: db_wf_def)
  have sel: "select_genres d1 (next_rowid (artists d)) = remdups gs"
    using select_genres_orphan[OF fk next_rowid_fresh]
    by (simp add: d1 select_genres_def o_def)
  from get_artist_from_db_find[OF f]
  have h: "get_artist_from_db (find_fails healthy) n d1 =
           Some [''id'' \<mapsto> PInt (a_id ?a),
                 ''name'' \<mapsto> PStr (a_name ?a),
                 ''is_local'' \<mapsto> PInt (if a_is_local ?a then 1 else 0),
                 ''verification_source'' \<mapsto> PStr (a_verification_source ?a),
                 ''last_updated'' \<mapsto> PStr (a_last_updated ?a),
                 ''genres'' \<mapsto> PStrs (select_genres d1 (a_id ?a)),
                 ''venues'' \<mapsto> PPairs (select_venues d1 (a_id ?a))]"
    by (simp add: healthy_def)
  from process_artist_hit[OF h, where sp=sp2 and now=t2 and venue=None]
  have "\<exists>m2. process_artist sp2 healthy t2 n None d1 = (Inr m2, d1) \<and>
             m2 ''id'' = Some (PInt (next_rowid (artists d))) \<and>
             m2 ''genres'' = Some (PStrs (remdups gs))"
    by (simp add: sel)
  with r1 m1 show ?thesis by blast
qed

lemma eval_allstars_again:
  "process_artist
     (Some (\<lambda>q. SearchItems [SpotifyArtist ''radio room allstars'' [''rock'', ''blues''] 40 ''4xRr'']))
     healthy ''2024-05-02 20:00:00'' ''Radio Room Allstars'' None
     \<lparr>artists = [ArtistRow 1 ''Radio Room Allstars'' False ''spotify'' ''2024-05-01 20:00:00''],
     artist_genres = [GenreRow 1 ''rock'' 0.8 ''spotify'', GenreRow 1 ''blues'' 0.8 ''spotify''],
     artist_venues = []\<rparr> =
   (Inr [''id'' \<mapsto> PInt 1,
         ''name'' \<mapsto> PStr ''Radio Room Allstars'',
         ''is_local'' \<mapsto> PInt 0,
         ''verification_source'' \<mapsto> PStr ''spotify'',
         ''last_updated'' \<mapsto> PStr ''2024-05-01 20:00:00'',
         ''genres'' \<mapsto> PStrs [''rock'', ''blues''],
         ''venues'' \<mapsto> PPairs []],
    \<lparr>artists = [ArtistRow 1 ''Radio Room Allstars'' False ''spotify'' ''2024-05-01 20:00:00''],
     artist_genres = [GenreRow 1 ''rock'' 0.8 ''spotify'', GenreRow 1 ''blues'' 0.8 ''spotify''],
     artist_venues = []\<rparr>)"
  by (simp add: process_artist_def get_artist_from_db_def healthy_def select_genres_def
        select_venues_def)

lemma insert_genres_not_integrity:
  "insert_genres fault k aid info gs rows \<noteq> Inl IntegrityError"
  by (induction gs arbitrary: k rows)
     (auto simp: getitem_float_def getitem_strs_def split: option.splits pyval.splits)

lemma save_transaction_integrity:
  assumes "save_transaction fault now info d = Inl IntegrityError"
  shows "\<exists>name. info ''name'' = Some (PStr name) \<and> name \<in> set (map a_name (artists d))"
proof -
  from assms obtain name where n: "info ''name'' = Some (PStr name)"
    by (auto simp: save_transaction_def getitem_str_def split: option.splits pyval.splits)
  have "name \<in> set (map a_name (artists d))"
  proof (rule ccontr)
    assume "name \<notin> set (map a_name (artists d))"
    with assms n insert_genres_not_integrity show False
      by (auto simp: save_transaction_def getitem_str_def getitem_bool_def getitem_strs_def
            insert_artist_def Let_def
          split: option.splits pyval.splits sum.splits if_splits)
  qed
  with n show ?thesis by blast
qed



subsection \<open>A new artist with a venue\<close>

text \<open>
  Claim C1. For a name that is not in the store, resolving it with a venue should merge
  the adapter fragments, persist the candidate, record one venue visit against the new
  id and return the persisted record with its id. The code reads \<open>info['id']\<close> at the
  end of \<open>gather_artist_info\<close>, before anything was inserted and from a dictionary that
  never has that key: the call raises \<open>KeyError\<close>, and the database is left as it was,
  with no artist row and no venue row. (\<open>process_artist_miss_venue\<close> is the same fact
  for every missing name and every venue.)
\<close>

theorem miss_with_venue_raises:
  "process_artist sp healthy now ''Radio Room Allstars'' (Some ''Radio Room'') empty_db
     = (Inl (KeyError ''id''), empty_db)"
  by (simp add: process_artist_def get_artist_from_db_empty process_miss_venue)

subsection \<open>The two shapes of the result\<close>




subsection \<open>Where the confidence comes from\<close>


lemma lower_allstars: "lower ''radio room allstars'' = lower ''Radio Room Allstars''"
  by code_simp

lemma eval_allstars:
  "process_artist
     (Some (\<lambda>q. SearchItems [SpotifyArtist ''radio room allstars'' [''rock'', ''blues''] 40 ''4xRr'']))
     healthy ''2024-05-01 20:00:00'' ''Radio Room Allstars'' None empty_db =
   (Inr [''name'' \<mapsto> PStr ''Radio Room Allstars'',
         ''is_local'' \<mapsto> PBool False,
         ''genres'' \<mapsto> PStrs [''rock'', ''blues''],
         ''popularity'' \<mapsto> PInt 40,
         ''spotify_id'' \<mapsto> PStr ''4xRr'',
         ''confidence'' \<mapsto> PFloat 0.8,
         ''sources'' \<mapsto> PStrs [''spotify'']],
    \<lparr>artists = [ArtistRow 1 ''Radio Room Allstars'' False ''spotify'' ''2024-05-01 20:00:00''],
     artist_genres = [GenreRow 1 ''rock'' 0.8 ''spotify'', GenreRow 1 ''blues'' 0.8 ''spotify''],
     artist_venues = []\<rparr>)"
  by (simp add: process_artist_def process_miss_def get_artist_from_db_def gather_no_venue
        get_spotify_info_def save_artist_to_db_def save_transaction_def initial_info_def
        getitem_str_def getitem_bool_def getitem_strs_def getitem_float_def insert_artist_def
        next_rowid_def empty_db_def healthy_def lower_allstars map_add_def fun_eq_iff)


subsection \<open>What a genre row carries\<close>

text \<open>
  Claim C10. All genre rows written by one run of \<open>save_artist_to_db\<close> carry the same
  confidence, the record's \<open>confidence\<close>, and the same source, the comma-joined list
  of all the record's \<open>sources\<close>. A genre row has no other column than the artist
  id, the genre, that confidence and that source, so nothing in it says which adapter
  supplied the tag or how sure that adapter was.
\<close>

theorem genre_rows_uniform:
  assumes "save_transaction fault now artist_info d = Inr d'"
  shows "\<exists>rows sources.
           artist_genres d' = artist_genres d @ rows \<and>
           artist_info ''sources'' = Some (PStrs sources) \<and>
           (\<forall>r \<in> set rows.
              g_artist_id r = next_rowid (artists d) \<and>
              artist_info ''confidence'' = Some (PFloat (g_confidence r)) \<and>
              g_source r = join_comma sources)"
proof -
  from save_transaction_Inr[OF assms] obtain name loc srcs genres c where
    s: "artist_info ''sources'' = Some (PStrs srcs)" and
    c: "remdups genres \<noteq> [] \<longrightarrow> artist_info ''confidence'' = Some (PFloat c)" and
    d': "d' = \<lparr>artists = artists d @
                    [ArtistRow (next_rowid (artists d)) name loc (join_comma srcs) now],
                 artist_genres = artist_genres d @
                    map (\<lambda>g. GenreRow (next_rowid (artists d)) g c (join_comma srcs)) (remdups genres),
                 artist_venues = artist_venues d\<rparr>"
    by blast
  let ?rows = "map (\<lambda>g. GenreRow (next_rowid (artists d)) g c (join_comma srcs)) (remdups genres)"
  have "artist_genres d' = artist_genres d @ ?rows" by (simp add: d')
  moreover have "\<forall>r \<in> set ?rows.
              g_artist_id r = next_rowid (artists d) \<and>
              artist_info ''confidence'' = Some (PFloat (g_confidence r)) \<and>
              g_source r = join_comma srcs"
    using c by auto
  ultimately show ?thesis using s by blast
qed

lemma eval_save_two_sources:
  "save_transaction None ''2024-05-01 20:00:00''
     [''name'' \<mapsto> PStr ''X'', ''genres'' \<mapsto> PStrs [''rock'', ''blues''],
      ''is_local'' \<mapsto> PBool True, ''confidence'' \<mapsto> PFloat 0.5,
      ''sources'' \<mapsto> PStrs [''spotify'', ''instagram'']]
     empty_db =
   Inr \<lparr>artists = [ArtistRow 1 ''X'' True ''spotify,instagram'' ''2024-05-01 20:00:00''],
        artist_genres = [GenreRow 1 ''rock'' 0.5 ''spotify,instagram'',
                         GenreRow 1 ''blues'' 0.5 ''spotify,instagram''],
        artist_venues = []\<rparr>"
  by (simp add: save_transaction_def getitem_str_def getitem_bool_def getitem_strs_def
        getitem_float_def insert_artist_def next_rowid_def empty_db_def)

theorem genre_rows_uniform_witness:
  "save_transaction None ''2024-05-01 20:00:00''
     [''name'' \<mapsto> PStr ''X'', ''genres'' \<mapsto> PStrs [''rock'', ''blues''],
      ''is_local'' \<mapsto> PBool True, ''confidence'' \<mapsto> PFloat 0.5,
      ''sources'' \<mapsto> PStrs [''spotify'', ''instagram'']]
     empty_db =
   Inr \<lparr>artists = [ArtistRow 1 ''X'' True ''spotify,instagram'' ''2024-05-01 20:00:00''],
        artist_genres = [GenreRow 1 ''rock'' 0.5 ''spotify,instagram'',
                         GenreRow 1 ''blues'' 0.5 ''spotify,instagram''],
        artist_venues = []\<rparr> \<and>
   map g_confidence [GenreRow 1 ''rock'' 0.5 ''spotify,instagram'',
                     GenreRow 1 ''blues'' 0.5 ''spotify,instagram''] = [0.5, 0.5] \<and>
   map g_source [GenreRow 1 ''rock'' 0.5 ''spotify,instagram'',
                 GenreRow 1 ''blues'' 0.5 ''spotify,instagram'']
     = [join_comma [''spotify'', ''instagram''], join_comma [''spotify'', ''instagram'']]"
  using genre_rows_uniform[OF eval_save_two_sources] eval_save_two_sources
  by simp

subsection \<open>Genres are deduplicated when they are persisted\<close>

text \<open>
  Claim C4. The merge step does not deduplicate genres: the candidate's \<open>genres\<close> is
  the list as the catalog gave it, repeated tags included (and \<open>merge_fragment_genres\<close>:
  a further fragment's genres are appended to it as they are). Deduplication happens in
  \<open>save_artist_to_db\<close>, which iterates over \<open>set(genres)\<close>: the genre rows of the
  artist just persisted hold every tag of the candidate, each exactly once.
\<close>

theorem genres_deduplicated_at_persistence:
  assumes "db_wf d"
    and "gather_artist_info sp vf now n venue d = (Inr info, d1)"
    and "save_transaction fault now info d1 = Inr d'"
  shows "\<exists>genres a.
           info ''genres'' = Some (PStrs genres) \<and>
           (\<forall>client s rest. sp = Some client \<and> client n = SearchItems (s # rest)
              \<longrightarrow> genres = sp_genres s) \<and>
           find (\<lambda>r. a_name r = n) (artists d') = Some a \<and>
           distinct (select_genres d' (a_id a)) \<and>
           set (select_genres d' (a_id a)) = set genres"
proof -
  note f = gathered_fields[OF assms(2)]
  from f(7) obtain genres where g: "info ''genres'' = Some (PStrs genres)" by blast
  from f(1) assms(3) have ok: "save_transaction fault now info d = Inr d'" by simp
  have cat: "genres = sp_genres s"
    if "sp = Some client" and "client n = SearchItems (s # rest)" for client s rest
    using that g f(8) by (simp add: get_spotify_info_items initial_info_def)
  from save_transaction_genres(3)[OF assms(1) ok g f(3)] obtain a where
    a: "find (\<lambda>r. a_name r = n) (artists d') = Some a" "a_id a = next_rowid (artists d)"
    by blast
  from save_transaction_genres(1,2)[OF assms(1) ok g] a g cat show ?thesis
    by auto
qed

lemma lower_Xx: "lower ''Xx'' \<noteq> lower ''X''"
  by code_simp

lemma eval_gather_duplicates:
  "gather_artist_info
       (Some (\<lambda>q. SearchItems [SpotifyArtist ''Xx'' [''rock'', ''blues'', ''rock''] 40 ''4xRr'']))
       False ''2024-05-01 20:00:00'' ''X'' None empty_db =
     (Inr [''name'' \<mapsto> PStr ''X'', ''is_local'' \<mapsto> PBool False,
           ''genres'' \<mapsto> PStrs [''rock'', ''blues'', ''rock''],
           ''popularity'' \<mapsto> PInt 40, ''spotify_id'' \<mapsto> PStr ''4xRr'',
           ''confidence'' \<mapsto> PFloat 0.5, ''sources'' \<mapsto> PStrs [''spotify'']], empty_db)"
  by (simp add: gather_no_venue get_spotify_info_def initial_info_def map_add_def fun_eq_iff
        lower_Xx)

lemma eval_save_duplicates:
  "save_transaction None ''2024-05-01 20:00:00''
       [''name'' \<mapsto> PStr ''X'', ''is_local'' \<mapsto> PBool False,
           ''genres'' \<mapsto> PStrs [''rock'', ''blues'', ''rock''],
           ''popularity'' \<mapsto> PInt 40, ''spotify_id'' \<mapsto> PStr ''4xRr'',
           ''confidence'' \<mapsto> PFloat 0.5, ''sources'' \<mapsto> PStrs [''spotify'']]
       empty_db =
     Inr \<lparr>artists = [ArtistRow 1 ''X'' False ''spotify'' ''2024-05-01 20:00:00''],
          artist_genres = [GenreRow 1 ''blues'' 0.5 ''spotify'', GenreRow 1 ''rock'' 0.5 ''spotify''],
          artist_venues = []\<rparr>"
  by (simp add: save_transaction_def getitem_str_def getitem_bool_def getitem_strs_def
        getitem_float_def insert_artist_def next_rowid_def empty_db_def)

theorem genres_deduplicated_at_persistence_witness:
  "db_wf empty_db \<and>
   gather_artist_info
       (Some (\<lambda>q. SearchItems [SpotifyArtist ''Xx'' [''rock'', ''blues'', ''rock''] 40 ''4xRr'']))
       False ''2024-05-01 20:00:00'' ''X'' None empty_db =
     (Inr [''name'' \<mapsto> PStr ''X'', ''is_local'' \<mapsto> PBool False,
           ''genres'' \<mapsto> PStrs [''rock'', ''blues'', ''rock''],
           ''popularity'' \<mapsto> PInt 40, ''spotify_id'' \<mapsto> PStr ''4xRr'',
           ''confidence'' \<mapsto> PFloat 0.5, ''sources'' \<mapsto> PStrs [''spotify'']], empty_db) \<and>
   save_transaction None ''2024-05-01 20:00:00''
       [''name'' \<mapsto> PStr ''X'', ''is_local'' \<mapsto> PBool False,
           ''genres'' \<mapsto> PStrs [''rock'', ''blues'', ''rock''],
           ''popularity'' \<mapsto> PInt 40, ''spotify_id'' \<mapsto> PStr ''4xRr'',
           ''confidence'' \<mapsto> PFloat 0.5, ''sources'' \<mapsto> PStrs [''spotify'']]
       empty_db =
     Inr \<lparr>artists = [ArtistRow 1 ''X'' False ''spotify'' ''2024-05-01 20:00:00''],
          artist_genres = [GenreRow 1 ''blues'' 0.5 ''spotify'', GenreRow 1 ''rock'' 0.5 ''spotify''],
          artist_venues = []\<rparr> \<and>
   \<not> distinct [''rock'', ''blues'', ''rock''] \<and>
   find (\<lambda>r. a_name r = ''X'')
     (artists \<lparr>artists = [ArtistRow 1 ''X'' False ''spotify'' ''2024-05-01 20:00:00''],
          artist_genres = [GenreRow 1 ''blues'' 0.5 ''spotify'', GenreRow 1 ''rock'' 0.5 ''spotify''],
          artist_venues = []\<rparr>)
     = Some (ArtistRow 1 ''X'' False ''spotify'' ''2024-05-01 20:00:00'') \<and>
   select_genres \<lparr>artists = [ArtistRow 1 ''X'' False ''spotify'' ''2024-05-01 20:00:00''],
          artist_genres = [GenreRow 1 ''blues'' 0.5 ''spotify'', GenreRow 1 ''rock'' 0.5 ''spotify''],
          artist_venues = []\<rparr> 1 = [''blues'', ''rock''] \<and>
   distinct [''blues'', ''rock'']"
  using genres_deduplicated_at_persistence[OF db_wf_empty eval_gather_duplicates
      eval_save_duplicates]
    db_wf_empty eval_gather_duplicates eval_save_duplicates
  by (simp add: select_genres_def)

subsection \<open>Resolving an artist that is already stored\<close>

text \<open>
  Claim C7. When the name is already in the table \<open>artists\<close>, a call of
  \<open>process_artist\<close>, with or without a venue and whatever the catalog client, leaves the
  tables \<open>artists\<close> and \<open>artist_genres\<close> as they were; so \<open>is_local\<close> and
  \<open>verification_source\<close> (the joined sources) stay what they were when the row was
  created. This holds even when a database statement raises. On a healthy store the call
  returns the row as read back, and its only change is one row appended to
  \<open>artist_venues\<close> when a venue was given (\<open>if venue:\<close>, so not for the empty
  string).
\<close>

theorem hit_only_appends_visit:
  assumes "find (\<lambda>r. a_name r = n) (artists d) = Some a"
  shows "artists (snd (process_artist sp fl now n venue d)) = artists d \<and>
         artist_genres (snd (process_artist sp fl now n venue d)) = artist_genres d \<and>
         process_artist sp healthy now n venue d =
           (Inr [''id'' \<mapsto> PInt (a_id a),
                 ''name'' \<mapsto> PStr (a_name a),
                 ''is_local'' \<mapsto> PInt (if a_is_local a then 1 else 0),
                 ''verification_source'' \<mapsto> PStr (a_verification_source a),
                 ''last_updated'' \<mapsto> PStr (a_last_updated a),
                 ''genres'' \<mapsto> PStrs (select_genres d (a_id a)),
                 ''venues'' \<mapsto> PPairs (select_venues d (a_id a))],
            if venue_given venue
            then d\<lparr>artist_venues := artist_venues d @ [VenueRow (a_id a) (the venue) now]\<rparr>
            else d)"
proof -
  have h: "get_artist_from_db (find_fails healthy) n d =
           Some [''id'' \<mapsto> PInt (a_id a),
                 ''name'' \<mapsto> PStr (a_name a),
                 ''is_local'' \<mapsto> PInt (if a_is_local a then 1 else 0),
                 ''verification_source'' \<mapsto> PStr (a_verification_source a),
                 ''last_updated'' \<mapsto> PStr (a_last_updated a),
                 ''genres'' \<mapsto> PStrs (select_genres d (a_id a)),
                 ''venues'' \<mapsto> PPairs (select_venues d (a_id a))]"
    using get_artist_from_db_find[OF assms] by (simp add: healthy_def)
  from process_artist_hit[OF h, where sp=sp and now=now and venue=venue] assms
  have "process_artist sp healthy now n venue d =
           (Inr [''id'' \<mapsto> PInt (a_id a),
                 ''name'' \<mapsto> PStr (a_name a),
                 ''is_local'' \<mapsto> PInt (if a_is_local a then 1 else 0),
                 ''verification_source'' \<mapsto> PStr (a_verification_source a),
                 ''last_updated'' \<mapsto> PStr (a_last_updated a),
                 ''genres'' \<mapsto> PStrs (select_genres d (a_id a)),
                 ''venues'' \<mapsto> PPairs (select_venues d (a_id a))],
            if venue_given venue
            then d\<lparr>artist_venues := artist_venues d @ [VenueRow (a_id a) (the venue) now]\<rparr>
            else d)"
    by (simp add: update_venue_info_def healthy_def)
  with process_artist_present_tables[OF assms] show ?thesis by simp
qed

lemma find_stored_X:
  "find (\<lambda>r. a_name r = ''X'')
     (artists \<lparr>artists = [ArtistRow 1 ''X'' False ''spotify'' ''2024-05-01 20:00:00''],
        artist_genres = [GenreRow 1 ''blues'' 0.5 ''spotify'', GenreRow 1 ''rock'' 0.5 ''spotify''],
        artist_venues = []\<rparr>)
   = Some (ArtistRow 1 ''X'' False ''spotify'' ''2024-05-01 20:00:00'')"
  by simp

theorem hit_only_appends_visit_witness:
  "find (\<lambda>r. a_name r = ''X'')
     (artists \<lparr>artists = [ArtistRow 1 ''X'' False ''spotify'' ''2024-05-01 20:00:00''],
        artist_genres = [GenreRow 1 ''blues'' 0.5 ''spotify'', GenreRow 1 ''rock'' 0.5 ''spotify''],
        artist_venues = []\<rparr>)
   = Some (ArtistRow 1 ''X'' False ''spotify'' ''2024-05-01 20:00:00'') \<and>
   process_artist None healthy ''2024-06-01 21:00:00'' ''X'' (Some ''Radio Room'')
     \<lparr>artists = [ArtistRow 1 ''X'' False ''spotify'' ''2024-05-01 20:00:00''],
        artist_genres = [GenreRow 1 ''blues'' 0.5 ''spotify'', GenreRow 1 ''rock'' 0.5 ''spotify''],
        artist_venues = []\<rparr>
   = (Inr [''id'' \<mapsto> PInt 1,
           ''name'' \<mapsto> PStr ''X'',
           ''is_local'' \<mapsto> PInt 0,
           ''verification_source'' \<mapsto> PStr ''spotify'',
           ''last_updated'' \<mapsto> PStr ''2024-05-01 20:00:00'',
           ''genres'' \<mapsto> PStrs [''blues'', ''rock''],
           ''venues'' \<mapsto> PPairs []],
      \<lparr>artists = [ArtistRow 1 ''X'' False ''spotify'' ''2024-05-01 20:00:00''],
        artist_genres = [GenreRow 1 ''blues'' 0.5 ''spotify'', GenreRow 1 ''rock'' 0.5 ''spotify''],
        artist_venues = [VenueRow 1 ''Radio Room'' ''2024-06-01 21:00:00'']\<rparr>)"
  using hit_only_appends_visit[OF find_stored_X, where sp=None and fl=healthy
      and now="''2024-06-01 21:00:00''" and venue="Some ''Radio Room''"]
  by (simp add: select_genres_def select_venues_def)

subsection \<open>Names are compared as they are written\<close>






subsection \<open>Resolving the same name twice\<close>

text \<open>
  Claim C2. Resolving a name twice without a venue should return the same id and the same
  genres both times, the second call being answered from the store alone. The second call
  is indeed a pure lookup (\<open>second_resolve_is_hit\<close>: whatever the catalog client, the
  store is unchanged, the stored id is returned, and the genres are those of the first
  call, each once). But the first call, for a name not yet stored, returns the gathered
  dictionary, and that one has no \<open>id\<close>: \<open>save_artist_to_db\<close> keeps the row id to
  itself. So the two calls do not return the same id; below, the first returns none and
  the second returns 1.
\<close>

theorem first_resolve_returns_no_id:
  "process_artist
     (Some (\<lambda>q. SearchItems [SpotifyArtist ''radio room allstars'' [''rock'', ''blues''] 40 ''4xRr'']))
     healthy ''2024-05-01 20:00:00'' ''Radio Room Allstars'' None empty_db =
   (Inr [''name'' \<mapsto> PStr ''Radio Room Allstars'',
         ''is_local'' \<mapsto> PBool False,
         ''genres'' \<mapsto> PStrs [''rock'', ''blues''],
         ''popularity'' \<mapsto> PInt 40,
         ''spotify_id'' \<mapsto> PStr ''4xRr'',
         ''confidence'' \<mapsto> PFloat 0.8,
         ''sources'' \<mapsto> PStrs [''spotify'']],
    \<lparr>artists = [ArtistRow 1 ''Radio Room Allstars'' False ''spotify'' ''2024-05-01 20:00:00''],
     artist_genres = [GenreRow 1 ''rock'' 0.8 ''spotify'', GenreRow 1 ''blues'' 0.8 ''spotify''],
     artist_venues = []\<rparr>) \<and>
   [''name'' \<mapsto> PStr ''Radio Room Allstars'',
         ''is_local'' \<mapsto> PBool False,
         ''genres'' \<mapsto> PStrs [''rock'', ''blues''],
         ''popularity'' \<mapsto> PInt 40,
         ''spotify_id'' \<mapsto> PStr ''4xRr'',
         ''confidence'' \<mapsto> PFloat 0.8,
         ''sources'' \<mapsto> PStrs [''spotify'']] ''id'' = None \<and>
   process_artist
     (Some (\<lambda>q. SearchItems [SpotifyArtist ''radio room allstars'' [''rock'', ''blues''] 40 ''4xRr'']))
     healthy ''2024-05-02 20:00:00'' ''Radio Room Allstars'' None
     \<lparr>artists = [ArtistRow 1 ''Radio Room Allstars'' False ''spotify'' ''2024-05-01 20:00:00''],
     artist_genres = [GenreRow 1 ''rock'' 0.8 ''spotify'', GenreRow 1 ''blues'' 0.8 ''spotify''],
     artist_venues = []\<rparr> =
   (Inr [''id'' \<mapsto> PInt 1,
         ''name'' \<mapsto> PStr ''Radio Room Allstars'',
         ''is_local'' \<mapsto> PInt 0,
         ''verification_source'' \<mapsto> PStr ''spotify'',
         ''last_updated'' \<mapsto> PStr ''2024-05-01 20:00:00'',
         ''genres'' \<mapsto> PStrs [''rock'', ''blues''],
         ''venues'' \<mapsto> PPairs []],
    \<lparr>artists = [ArtistRow 1 ''Radio Room Allstars'' False ''spotify'' ''2024-05-01 20:00:00''],
     artist_genres = [GenreRow 1 ''rock'' 0.8 ''spotify'', GenreRow 1 ''blues'' 0.8 ''spotify''],
     artist_venues = []\<rparr>) \<and>
   [''id'' \<mapsto> PInt 1,
         ''name'' \<mapsto> PStr ''Radio Room Allstars'',
         ''is_local'' \<mapsto> PInt 0,
         ''verification_source'' \<mapsto> PStr ''spotify'',
         ''last_updated'' \<mapsto> PStr ''2024-05-01 20:00:00'',
         ''genres'' \<mapsto> PStrs [''rock'', ''blues''],
         ''venues'' \<mapsto> PPairs []] ''id'' = Some (PInt 1)"
  using eval_allstars eval_allstars_again by simp

subsection \<open>An insert that meets a duplicate name\<close>

text \<open>
  Claim C5, as the code has it. When the insert of \<open>save_artist_to_db\<close> is refused
  because the name is already in the table (another resolution of the same name committed
  after this one's lookup had missed), the exception is caught inside
  \<open>save_artist_to_db\<close>, the transaction is rolled back and nothing is raised to the
  caller. There is no retry of the lookup anywhere in the module: \<open>process_artist\<close>
  returns the dictionary it gathered, which has no \<open>id\<close> and is not the stored
  record, although the store does hold a record of that name.
\<close>

theorem duplicate_name_swallowed:
  assumes "gather_artist_info sp (visit_fails fl) now n venue d = (Inr info, d1)"
    and "save_transaction (save_fails_at fl) now info d1 = Inl IntegrityError"
  shows "process_miss sp fl now n venue d = (Inr info, d) \<and>
         info ''id'' = None \<and>
         n \<in> set (map a_name (artists d)) \<and>
         get_artist_from_db False n d \<noteq> None \<and>
         get_artist_from_db False n d \<noteq> Some info"
proof -
  note f = gathered_fields[OF assms(1)]
  from f(1) assms(2) have s: "save_transaction (save_fails_at fl) now info d = Inl IntegrityError"
    by simp
  from assms(1) f(1) s have p: "process_miss sp fl now n venue d = (Inr info, d)"
    by (simp add: process_miss_def save_artist_to_db_def)
  from save_transaction_integrity[OF s] f(3) have present: "n \<in> set (map a_name (artists d))"
    by auto
  then have some: "get_artist_from_db False n d \<noteq> None"
    by (simp add: get_artist_from_db_None_iff)
  have "get_artist_from_db False n d \<noteq> Some info"
  proof
    assume "get_artist_from_db False n d = Some info"
    from get_artist_from_db_Some[OF this] obtain a where "info ''id'' = Some (PInt (a_id a))"
      by auto
    with f(5) show False by simp
  qed
  with p f(5) present some show ?thesis by simp
qed

lemma eval_race_gather:
  "gather_artist_info None (visit_fails healthy) ''2024-05-01 20:00:01'' ''X'' None
     \<lparr>artists = [ArtistRow 1 ''X'' False [] ''2024-05-01 20:00:00''],
        artist_genres = [], artist_venues = []\<rparr> =
   (Inr (initial_info ''X''),
    \<lparr>artists = [ArtistRow 1 ''X'' False [] ''2024-05-01 20:00:00''],
        artist_genres = [], artist_venues = []\<rparr>)"
  by (simp add: gather_no_venue get_spotify_info_def)

lemma eval_race_save:
  "save_transaction (save_fails_at healthy) ''2024-05-01 20:00:01'' (initial_info ''X'')
     \<lparr>artists = [ArtistRow 1 ''X'' False [] ''2024-05-01 20:00:00''],
        artist_genres = [], artist_venues = []\<rparr> =
   Inl IntegrityError"
  by (simp add: save_transaction_def getitem_str_def getitem_bool_def getitem_strs_def
        insert_artist_def initial_info_def healthy_def)

lemma eval_race_lookup:
  "get_artist_from_db False ''X''
     \<lparr>artists = [ArtistRow 1 ''X'' False [] ''2024-05-01 20:00:00''],
        artist_genres = [], artist_venues = []\<rparr> =
   Some [''id'' \<mapsto> PInt 1,
           ''name'' \<mapsto> PStr ''X'',
           ''is_local'' \<mapsto> PInt 0,
           ''verification_source'' \<mapsto> PStr [],
           ''last_updated'' \<mapsto> PStr ''2024-05-01 20:00:00'',
           ''genres'' \<mapsto> PStrs [],
           ''venues'' \<mapsto> PPairs []]"
  by (simp add: get_artist_from_db_def select_genres_def select_venues_def)

theorem duplicate_name_swallowed_witness:
  "gather_artist_info None (visit_fails healthy) ''2024-05-01 20:00:01'' ''X'' None
     \<lparr>artists = [ArtistRow 1 ''X'' False [] ''2024-05-01 20:00:00''],
        artist_genres = [], artist_venues = []\<rparr> =
   (Inr (initial_info ''X''),
    \<lparr>artists = [ArtistRow 1 ''X'' False [] ''2024-05-01 20:00:00''],
        artist_genres = [], artist_venues = []\<rparr>) \<and>
   save_transaction (save_fails_at healthy) ''2024-05-01 20:00:01'' (initial_info ''X'')
     \<lparr>artists = [ArtistRow 1 ''X'' False [] ''2024-05-01 20:00:00''],
        artist_genres = [], artist_venues = []\<rparr> =
   Inl IntegrityError \<and>
   process_miss None healthy ''2024-05-01 20:00:01'' ''X'' None
     \<lparr>artists = [ArtistRow 1 ''X'' False [] ''2024-05-01 20:00:00''],
        artist_genres = [], artist_venues = []\<rparr> =
   (Inr (initial_info ''X''),
    \<lparr>artists = [ArtistRow 1 ''X'' False [] ''2024-05-01 20:00:00''],
        artist_genres = [], artist_venues = []\<rparr>) \<and>
   initial_info ''X'' ''id'' = None"
  using duplicate_name_swallowed[OF eval_race_gather eval_race_save] eval_race_gather
    eval_race_save
  by simp

text \<open>
  The claim as it was stated asks for more: that the call then returns the stored record
  through the lookup, so that both resolutions return the same id. Here the lookup of
  \<open>X\<close> missed on the empty store, the other resolution then inserted \<open>X\<close> with
  id 1, and the rest of \<open>process_artist\<close> runs on that store: the insert fails on the
  duplicate name and the call returns the gathered dictionary without an id, not the
  stored record with id 1.
\<close>

theorem duplicate_name_no_retry_counterexample:
  "get_artist_from_db False ''X'' empty_db = None \<and>
   save_transaction (save_fails_at healthy) ''2024-05-01 20:00:01'' (initial_info ''X'')
     \<lparr>artists = [ArtistRow 1 ''X'' False [] ''2024-05-01 20:00:00''],
        artist_genres = [], artist_venues = []\<rparr> =
   Inl IntegrityError \<and>
   get_artist_from_db False ''X''
     \<lparr>artists = [ArtistRow 1 ''X'' False [] ''2024-05-01 20:00:00''],
        artist_genres = [], artist_venues = []\<rparr> =
   Some [''id'' \<mapsto> PInt 1,
           ''name'' \<mapsto> PStr ''X'',
           ''is_local'' \<mapsto> PInt 0,
           ''verification_source'' \<mapsto> PStr [],
           ''last_updated'' \<mapsto> PStr ''2024-05-01 20:00:00'',
           ''genres'' \<mapsto> PStrs [],
           ''venues'' \<mapsto> PPairs []] \<and>
   process_miss None healthy ''2024-05-01 20:00:01'' ''X'' None
     \<lparr>artists = [ArtistRow 1 ''X'' False [] ''2024-05-01 20:00:00''],
        artist_genres = [], artist_venues = []\<rparr> =
   (Inr (initial_info ''X''),
    \<lparr>artists = [ArtistRow 1 ''X'' False [] ''2024-05-01 20:00:00''],
        artist_genres = [], artist_venues = []\<rparr>) \<and>
   initial_info ''X'' ''id'' = None \<and>
   [''id'' \<mapsto> PInt 1,
           ''name'' \<mapsto> PStr ''X'',
           ''is_local'' \<mapsto> PInt 0,
           ''verification_source'' \<mapsto> PStr [],
           ''last_updated'' \<mapsto> PStr ''2024-05-01 20:00:00'',
           ''genres'' \<mapsto> PStrs [],
           ''venues'' \<mapsto> PPairs []] ''id'' = Some (PInt 1) \<and>
   fst (process_miss None healthy ''2024-05-01 20:00:01'' ''X'' None
     \<lparr>artists = [ArtistRow 1 ''X'' False [] ''2024-05-01 20:00:00''],
        artist_genres = [], artist_venues = []\<rparr>)
   \<noteq> Inr [''id'' \<mapsto> PInt 1,
           ''name'' \<mapsto> PStr ''X'',
           ''is_local'' \<mapsto> PInt 0,
           ''verification_source'' \<mapsto> PStr [],
           ''last_updated'' \<mapsto> PStr ''2024-05-01 20:00:00'',
           ''genres'' \<mapsto> PStrs [],
           ''venues'' \<mapsto> PPairs []]"
proof -
  have p: "process_miss None healthy ''2024-05-01 20:00:01'' ''X'' None
     \<lparr>artists = [ArtistRow 1 ''X'' False [] ''2024-05-01 20:00:00''],
        artist_genres = [], artist_venues = []\<rparr> =
   (Inr (initial_info ''X''),
    \<lparr>artists = [ArtistRow 1 ''X'' False [] ''2024-05-01 20:00:00''],
        artist_genres = [], artist_venues = []\<rparr>)"
    by (simp add: process_miss_def eval_race_gather [simplified healthy_def, simplified]
          save_artist_to_db_def eval_race_save [simplified healthy_def, simplified] healthy_def)
  have i: "initial_info ''X'' ''id'' = None" by (simp add: initial_info_def)
  have ne: "initial_info ''X'' \<noteq> [''id'' \<mapsto> PInt 1,
           ''name'' \<mapsto> PStr ''X'',
           ''is_local'' \<mapsto> PInt 0,
           ''verification_source'' \<mapsto> PStr [],
           ''last_updated'' \<mapsto> PStr ''2024-05-01 20:00:00'',
           ''genres'' \<mapsto> PStrs [],
           ''venues'' \<mapsto> PPairs []]"
  proof
    assume "initial_info ''X'' = [''id'' \<mapsto> PInt 1,
           ''name'' \<mapsto> PStr ''X'',
           ''is_local'' \<mapsto> PInt 0,
           ''verification_source'' \<mapsto> PStr [],
           ''last_updated'' \<mapsto> PStr ''2024-05-01 20:00:00'',
           ''genres'' \<mapsto> PStrs [],
           ''venues'' \<mapsto> PPairs []]"
    then have "initial_info ''X'' ''id'' = [''id'' \<mapsto> PInt 1,
           ''name'' \<mapsto> PStr ''X'',
           ''is_local'' \<mapsto> PInt 0,
           ''verification_source'' \<mapsto> PStr [],
           ''last_updated'' \<mapsto> PStr ''2024-05-01 20:00:00'',
           ''genres'' \<mapsto> PStrs [],
           ''venues'' \<mapsto> PPairs []] ''id''"
      by simp
    with i show False by simp
  qed
  from p i ne eval_race_save eval_race_lookup show ?thesis
    by (simp add: get_artist_from_db_empty)
qed

subsection \<open>Store failures during the insert\<close>






end
